theory Spec2Isabelle
  imports Complex_Main
begin

section \<open>Values, containers and failures\<close>

text \<open>
  The source computes with \<^verbatim>\<open>double\<close>. A finite double is modelled by the real number it
  stands for (rounding is not modelled, and a zero carries no sign); the special values the
  code can produce (\<^verbatim>\<open>NAN\<close>, \<^verbatim>\<open>INFINITY\<close>, the results of dividing by zero) are
  constructors of their own. The \<^verbatim>\<open>int\<close> values the source is given or computes with are
  mathematical integers; where the source converts a double quotient to \<^verbatim>\<open>int\<close>, the
  32-bit range of the result is checked.
\<close>

datatype double = Fin real | PInf | NInf | NaN

fun dneg :: "double \<Rightarrow> double" where
  "dneg (Fin a) = Fin (- a)"
| "dneg PInf = NInf"
| "dneg NInf = PInf"
| "dneg NaN = NaN"

fun ddiv :: "double \<Rightarrow> double \<Rightarrow> double" where
  "ddiv (Fin a) (Fin b) =
     (if b = 0 then (if a = 0 then NaN else if 0 < a then PInf else NInf) else Fin (a / b))"
| "ddiv (Fin a) PInf = Fin 0"
| "ddiv (Fin a) NInf = Fin 0"
| "ddiv PInf (Fin b) = (if 0 \<le> b then PInf else NInf)"
| "ddiv NInf (Fin b) = (if 0 \<le> b then NInf else PInf)"
| "ddiv _ _ = NaN"

fun dmul :: "double \<Rightarrow> double \<Rightarrow> double" where
  "dmul (Fin a) (Fin b) = Fin (a * b)"
| "dmul PInf (Fin b) = (if b = 0 then NaN else if 0 < b then PInf else NInf)"
| "dmul NInf (Fin b) = (if b = 0 then NaN else if 0 < b then NInf else PInf)"
| "dmul (Fin a) PInf = (if a = 0 then NaN else if 0 < a then PInf else NInf)"
| "dmul (Fin a) NInf = (if a = 0 then NaN else if 0 < a then NInf else PInf)"
| "dmul PInf PInf = PInf"
| "dmul NInf NInf = PInf"
| "dmul PInf NInf = NInf"
| "dmul NInf PInf = NInf"
| "dmul _ _ = NaN"

text \<open>The comparison \<^verbatim>\<open>a >= b\<close>: false as soon as one side is not a number.\<close>

fun dge :: "double \<Rightarrow> double \<Rightarrow> bool" where
  "dge NaN _ = False"
| "dge _ NaN = False"
| "dge (Fin a) (Fin b) = (b \<le> a)"
| "dge PInf _ = True"
| "dge _ NInf = True"
| "dge _ _ = False"

text \<open>
  Every way the source can leave its normal path is a value: \<^verbatim>\<open>std::vector::at\<close> throws
  \<^verbatim>\<open>std::out_of_range\<close>; an unchecked read outside a container or through an end iterator
  is undefined behaviour; so is the conversion to \<^verbatim>\<open>int\<close> of a quotient that is not
  finite, or whose truncated value no \<^verbatim>\<open>int\<close> represents; a matrix product of
  mismatched sizes is rejected by the matrix library.
\<close>

datatype error = OutOfRange | UndefinedRead | UndefinedConversion | SizeMismatch

definition vec_at :: "'a list \<Rightarrow> int \<Rightarrow> error + 'a" where
  "vec_at v i = (if 0 \<le> i \<and> i < int (length v) then Inr (v ! nat i) else Inl OutOfRange)"

definition vec_index :: "'a list \<Rightarrow> int \<Rightarrow> error + 'a" where
  "vec_index v i = (if 0 \<le> i \<and> i < int (length v) then Inr (v ! nat i) else Inl UndefinedRead)"

text \<open>\<^verbatim>\<open>vector::erase(begin() + i)\<close> for a position inside the vector.\<close>

definition vec_erase :: "'a list \<Rightarrow> nat \<Rightarrow> 'a list" where
  "vec_erase v i = take i v @ drop (Suc i) v"

section \<open>Data model\<close>

type_synonym Point2f = "real \<times> real"

type_synonym Point = "int \<times> int"

definition psub :: "Point2f \<Rightarrow> Point2f \<Rightarrow> Point2f" where
  "psub a b = (fst a - fst b, snd a - snd b)"

definition cv_norm :: "Point2f \<Rightarrow> real" where
  "cv_norm p = sqrt (fst p * fst p + snd p * snd p)"

record KeyPoint =
  pt :: Point2f

record DMatch =
  queryIdx :: int
  trainIdx :: int

record Rect =
  rect_x :: int
  rect_y :: int
  rect_width :: int
  rect_height :: int

record LidarPoint =
  lp_x :: real
  lp_y :: real
  lp_z :: real
  lp_r :: real

record BoundingBox =
  boxID :: int
  roi :: Rect
  lidarPoints :: "LidarPoint list"
  kptMatches :: "DMatch list"

record DataFrame =
  keypoints :: "KeyPoint list"
  boundingBoxes :: "BoundingBox list"

section \<open>computeTTCCamera\<close>

definition minDist :: real where
  "minDist = 100"

text \<open>\<^verbatim>\<open>std::numeric_limits<double>::epsilon()\<close>\<close>

definition dbl_epsilon :: real where
  "dbl_epsilon = 1 / 2 ^ 52"

text \<open>
  The inner loop \<^verbatim>\<open>for (it2 = begin() + 1; it2 != end(); ++it2)\<close>; the iterator is its
  offset \<open>j\<close> from \<^verbatim>\<open>begin()\<close>.
\<close>

function innerLoop ::
  "KeyPoint list \<Rightarrow> KeyPoint list \<Rightarrow> DMatch list \<Rightarrow> KeyPoint \<Rightarrow> KeyPoint \<Rightarrow> nat \<Rightarrow> real list
    \<Rightarrow> error + real list" where
  "innerLoop kptsPrev kptsCurr ms kpOuterCurr kpOuterPrev j distRatios =
     (if j = length ms then Inr distRatios
      else case vec_index ms (int j) of Inl e \<Rightarrow> Inl e | Inr it2 \<Rightarrow>
           (case vec_at kptsCurr (trainIdx it2) of Inl e \<Rightarrow> Inl e | Inr kpInnerCurr \<Rightarrow>
           (case vec_at kptsPrev (queryIdx it2) of Inl e \<Rightarrow> Inl e | Inr kpInnerPrev \<Rightarrow>
             let distCurr = cv_norm (psub (pt kpOuterCurr) (pt kpInnerCurr));
                 distPrev = cv_norm (psub (pt kpOuterPrev) (pt kpInnerPrev))
             in if dbl_epsilon < distPrev \<and> minDist \<le> distCurr
                then innerLoop kptsPrev kptsCurr ms kpOuterCurr kpOuterPrev (Suc j)
                       (distRatios @ [distCurr / distPrev])
                else innerLoop kptsPrev kptsCurr ms kpOuterCurr kpOuterPrev (Suc j) distRatios)))"
  by pat_completeness auto
termination
  by (relation "measure (\<lambda>(kptsPrev, kptsCurr, ms, kpOuterCurr, kpOuterPrev, j, distRatios).
        length ms - j)")
     (auto simp: vec_index_def split: if_splits)

text \<open>
  The outer loop \<^verbatim>\<open>for (it1 = begin(); it1 != end() - 1; ++it1)\<close>, with \<open>i\<close> the offset of
  \<^verbatim>\<open>it1\<close>. On an empty vector \<^verbatim>\<open>end() - 1\<close> lies before \<^verbatim>\<open>begin()\<close>, the test
  holds and the body reads through \<^verbatim>\<open>it1 = end()\<close>.
\<close>

function outerLoop ::
  "KeyPoint list \<Rightarrow> KeyPoint list \<Rightarrow> DMatch list \<Rightarrow> nat \<Rightarrow> real list \<Rightarrow> error + real list" where
  "outerLoop kptsPrev kptsCurr ms i distRatios =
     (if int i = int (length ms) - 1 then Inr distRatios
      else case vec_index ms (int i) of Inl e \<Rightarrow> Inl e | Inr it1 \<Rightarrow>
           (case vec_at kptsCurr (trainIdx it1) of Inl e \<Rightarrow> Inl e | Inr kpOuterCurr \<Rightarrow>
           (case vec_at kptsPrev (queryIdx it1) of Inl e \<Rightarrow> Inl e | Inr kpOuterPrev \<Rightarrow>
           (case innerLoop kptsPrev kptsCurr ms kpOuterCurr kpOuterPrev 1 distRatios of
             Inl e \<Rightarrow> Inl e
           | Inr distRatios' \<Rightarrow> outerLoop kptsPrev kptsCurr ms (Suc i) distRatios'))))"
  by pat_completeness auto
termination
  by (relation "measure (\<lambda>(kptsPrev, kptsCurr, ms, i, distRatios). length ms - i)")
     (auto simp: vec_index_def split: if_splits)

declare innerLoop.simps [simp del]
declare outerLoop.simps [simp del]

text \<open>
  Lines 217--218: \<^verbatim>\<open>medianIdx = floor(size / 2)\<close> with the integer division of the source,
  then the parity test on \<^verbatim>\<open>medianIdx\<close> and the unchecked reads \<^verbatim>\<open>distRatios[...]\<close>.
\<close>

definition medianDistRatio :: "real list \<Rightarrow> error + real" where
  "medianDistRatio distRatios =
     (let medianIdx = int (length distRatios) div 2 in
      if medianIdx mod 2 = 0
      then (case vec_index distRatios (medianIdx - 1) of Inl e \<Rightarrow> Inl e | Inr a \<Rightarrow>
            (case vec_index distRatios medianIdx of Inl e \<Rightarrow> Inl e | Inr b \<Rightarrow>
              Inr ((a + b) / 2)))
      else vec_index distRatios medianIdx)"

definition computeTTCCamera ::
  "KeyPoint list \<Rightarrow> KeyPoint list \<Rightarrow> DMatch list \<Rightarrow> real \<Rightarrow> error + double" where
  "computeTTCCamera kptsPrev kptsCurr ms frameRate =
     (case outerLoop kptsPrev kptsCurr ms 0 [] of Inl e \<Rightarrow> Inl e | Inr distRatios \<Rightarrow>
        if length distRatios = 0 then Inr NaN
        else (case medianDistRatio (sort distRatios) of Inl e \<Rightarrow> Inl e | Inr medianRatio \<Rightarrow>
          let dT = ddiv (Fin 1) (Fin frameRate) in
          if medianRatio \<noteq> 1 then Inr (ddiv (dneg dT) (Fin (1 - medianRatio)))
          else Inr PInf))"

section \<open>clusterKptMatchesWithROI\<close>

text \<open>
  \<^verbatim>\<open>cv::Rect::contains\<close> applied to a keypoint's floating-point location belongs to the
  image library; the model takes it as the parameter \<open>contains\<close>.
\<close>

text \<open>Lines 134--141: the membership step; \<^verbatim>\<open>kptsCurr[match.trainIdx]\<close> is unchecked.\<close>

fun assignMatches ::
  "(Rect \<Rightarrow> Point2f \<Rightarrow> bool) \<Rightarrow> BoundingBox \<Rightarrow> KeyPoint list \<Rightarrow> DMatch list
    \<Rightarrow> error + BoundingBox" where
  "assignMatches contains boundingBox kptsCurr [] = Inr boundingBox"
| "assignMatches contains boundingBox kptsCurr (match # rest) =
     (case vec_index kptsCurr (trainIdx match) of Inl e \<Rightarrow> Inl e | Inr currKeyPt \<Rightarrow>
        if contains (roi boundingBox) (pt currKeyPt)
        then assignMatches contains
               (boundingBox\<lparr>kptMatches := kptMatches boundingBox @ [match]\<rparr>) kptsCurr rest
        else assignMatches contains boundingBox kptsCurr rest)"

text \<open>Lines 143--151: the sum of the keypoint displacements of the region's matches.\<close>

fun sumDistances ::
  "KeyPoint list \<Rightarrow> KeyPoint list \<Rightarrow> DMatch list \<Rightarrow> real \<Rightarrow> error + real" where
  "sumDistances kptsPrev kptsCurr [] acc = Inr acc"
| "sumDistances kptsPrev kptsCurr (it # rest) acc =
     (case vec_at kptsCurr (trainIdx it) of Inl e \<Rightarrow> Inl e | Inr kpCurr \<Rightarrow>
      (case vec_at kptsPrev (queryIdx it) of Inl e \<Rightarrow> Inl e | Inr kpPrev \<Rightarrow>
        sumDistances kptsPrev kptsCurr rest (acc + cv_norm (psub (pt kpCurr) (pt kpPrev)))))"

definition ratio :: real where
  "ratio = 3 / 2"

text \<open>
  Lines 152--153 and the right-hand side of the test of line 159: \<^verbatim>\<open>mean * ratio\<close> with
  \<^verbatim>\<open>mean = sum / boundingBox.kptMatches.size()\<close>, after the membership step
  (\<open>acc\<close> is the \<^verbatim>\<open>sum\<close> of the source).
\<close>

definition filterThreshold ::
  "(Rect \<Rightarrow> Point2f \<Rightarrow> bool) \<Rightarrow> BoundingBox \<Rightarrow> KeyPoint list \<Rightarrow> KeyPoint list \<Rightarrow> DMatch list
    \<Rightarrow> error + double" where
  "filterThreshold contains boundingBox kptsPrev kptsCurr ms =
     (case assignMatches contains boundingBox kptsCurr ms of Inl e \<Rightarrow> Inl e | Inr bb \<Rightarrow>
      (case sumDistances kptsPrev kptsCurr (kptMatches bb) 0 of Inl e \<Rightarrow> Inl e | Inr acc \<Rightarrow>
        let mean = ddiv (Fin acc) (Fin (real (length (kptMatches bb))))
        in Inr (dmul mean (Fin ratio))))"

text \<open>
  Lines 154--168: \<^verbatim>\<open>for (it = begin(); it <= end();)\<close> with \<open>i\<close> the offset of \<^verbatim>\<open>it\<close>.
  The body reads \<^verbatim>\<open>it->trainIdx\<close> unchecked, also when \<^verbatim>\<open>it\<close> is \<^verbatim>\<open>end()\<close>. The
  result of \<^verbatim>\<open>erase(it)\<close> is dropped and \<^verbatim>\<open>it\<close> keeps its offset, where the next
  element now stands.
\<close>

function eraseLoop ::
  "KeyPoint list \<Rightarrow> KeyPoint list \<Rightarrow> double \<Rightarrow> nat \<Rightarrow> DMatch list \<Rightarrow> error + DMatch list" where
  "eraseLoop kptsPrev kptsCurr threshold i v =
     (if i \<le> length v
      then case vec_index v (int i) of Inl e \<Rightarrow> Inl e | Inr it \<Rightarrow>
           (case vec_at kptsCurr (trainIdx it) of Inl e \<Rightarrow> Inl e | Inr kpCurr \<Rightarrow>
           (case vec_at kptsPrev (queryIdx it) of Inl e \<Rightarrow> Inl e | Inr kpPrev \<Rightarrow>
             if dge (Fin (cv_norm (psub (pt kpCurr) (pt kpPrev)))) threshold
             then eraseLoop kptsPrev kptsCurr threshold i (vec_erase v i)
             else eraseLoop kptsPrev kptsCurr threshold (Suc i) v))
      else Inr v)"
  by pat_completeness auto
termination
  by (relation "measure (\<lambda>(kptsPrev, kptsCurr, threshold, i, v). length v + (length v - i))")
     (auto simp: vec_index_def vec_erase_def split: if_splits)

declare eraseLoop.simps [simp del]

definition clusterKptMatchesWithROI ::
  "(Rect \<Rightarrow> Point2f \<Rightarrow> bool) \<Rightarrow> BoundingBox \<Rightarrow> KeyPoint list \<Rightarrow> KeyPoint list \<Rightarrow> DMatch list
    \<Rightarrow> error + BoundingBox" where
  "clusterKptMatchesWithROI contains boundingBox kptsPrev kptsCurr ms =
     (case assignMatches contains boundingBox kptsCurr ms of Inl e \<Rightarrow> Inl e | Inr bb \<Rightarrow>
      (case filterThreshold contains boundingBox kptsPrev kptsCurr ms of
        Inl e \<Rightarrow> Inl e
      | Inr threshold \<Rightarrow>
          (case eraseLoop kptsPrev kptsCurr threshold 0 (kptMatches bb) of
             Inl e \<Rightarrow> Inl e
           | Inr v \<Rightarrow> Inr (bb\<lparr>kptMatches := v\<rparr>))))"

section \<open>matchBoundingBoxes\<close>

text \<open>
  A \<^verbatim>\<open>std::map<int, int>\<close> that is iterated is an association list in ascending key
  order. Lines 334--341 count one vote for a key.
\<close>

fun map_put :: "(int \<times> int) list \<Rightarrow> int \<Rightarrow> int \<Rightarrow> (int \<times> int) list" where
  "map_put [] k c = [(k, c)]"
| "map_put ((k', c') # m) k c =
     (if k = k' then (k, c) # m
      else if k < k' then (k, c) # (k', c') # m
      else (k', c') # map_put m k c)"

definition count_vote :: "(int \<times> int) list \<Rightarrow> int \<Rightarrow> (int \<times> int) list" where
  "count_vote m k = (case map_of m k of None \<Rightarrow> map_put m k 1 | Some c \<Rightarrow> map_put m k (c + 1))"

text \<open>
  \<^verbatim>\<open>std::max_element\<close> with the comparison \<^verbatim>\<open>a.second < b.second\<close>: the first greatest
  element, and \<^verbatim>\<open>end()\<close> (here \<open>None\<close>) on an empty range.
\<close>

fun max_element_from :: "int \<times> int \<Rightarrow> (int \<times> int) list \<Rightarrow> int \<times> int" where
  "max_element_from largest [] = largest"
| "max_element_from largest (a # rest) =
     (if snd largest < snd a then max_element_from a rest else max_element_from largest rest)"

definition max_element :: "(int \<times> int) list \<Rightarrow> (int \<times> int) option" where
  "max_element m = (case m of [] \<Rightarrow> None | a # rest \<Rightarrow> Some (max_element_from a rest))"

text \<open>Lines 326--346, for one pair of boxes.\<close>

fun matchLoop ::
  "(Rect \<Rightarrow> Point2f \<Rightarrow> bool) \<Rightarrow> DataFrame \<Rightarrow> DataFrame \<Rightarrow> BoundingBox \<Rightarrow> BoundingBox \<Rightarrow> DMatch list
    \<Rightarrow> (int \<times> int) list \<Rightarrow> error + (int \<times> int) list" where
  "matchLoop contains prevFrame currFrame prevBox currBox [] m = Inr m"
| "matchLoop contains prevFrame currFrame prevBox currBox (match # rest) m =
     (case vec_index (keypoints prevFrame) (queryIdx match) of
        Inl e \<Rightarrow> Inl e
      | Inr prevKeyPoint \<Rightarrow>
          if contains (roi prevBox) (pt prevKeyPoint)
          then (case vec_index (keypoints currFrame) (trainIdx match) of
                  Inl e \<Rightarrow> Inl e
                | Inr currKeyPoint \<Rightarrow>
                    if contains (roi currBox) (pt currKeyPoint)
                    then matchLoop contains prevFrame currFrame prevBox currBox rest
                           (count_vote m (boxID currBox))
                    else matchLoop contains prevFrame currFrame prevBox currBox rest m)
          else matchLoop contains prevFrame currFrame prevBox currBox rest m)"

text \<open>Lines 324--347, for one previous box.\<close>

fun currBoxLoop ::
  "(Rect \<Rightarrow> Point2f \<Rightarrow> bool) \<Rightarrow> DataFrame \<Rightarrow> DataFrame \<Rightarrow> DMatch list \<Rightarrow> BoundingBox
    \<Rightarrow> BoundingBox list \<Rightarrow> (int \<times> int) list \<Rightarrow> error + (int \<times> int) list" where
  "currBoxLoop contains prevFrame currFrame matches prevBox [] m = Inr m"
| "currBoxLoop contains prevFrame currFrame matches prevBox (currBox # rest) m =
     (case matchLoop contains prevFrame currFrame prevBox currBox matches m of
        Inl e \<Rightarrow> Inl e
      | Inr m' \<Rightarrow> currBoxLoop contains prevFrame currFrame matches prevBox rest m')"

text \<open>
  Lines 321--357. Line 350 reads \<^verbatim>\<open>bestMatch->first\<close> whatever \<^verbatim>\<open>std::max_element\<close>
  returned, and assigns \<^verbatim>\<open>bbBestMatches[prevBox.boxID]\<close>.
\<close>

fun prevBoxLoop ::
  "(Rect \<Rightarrow> Point2f \<Rightarrow> bool) \<Rightarrow> DataFrame \<Rightarrow> DataFrame \<Rightarrow> DMatch list \<Rightarrow> BoundingBox list
    \<Rightarrow> (int \<rightharpoonup> int) \<Rightarrow> error + (int \<rightharpoonup> int)" where
  "prevBoxLoop contains prevFrame currFrame matches [] bbBestMatches = Inr bbBestMatches"
| "prevBoxLoop contains prevFrame currFrame matches (prevBox # rest) bbBestMatches =
     (case currBoxLoop contains prevFrame currFrame matches prevBox (boundingBoxes currFrame) [] of
        Inl e \<Rightarrow> Inl e
      | Inr m \<Rightarrow>
          (case max_element m of
             None \<Rightarrow> Inl UndefinedRead
           | Some bestMatch \<Rightarrow>
               prevBoxLoop contains prevFrame currFrame matches rest
                 (bbBestMatches(boxID prevBox \<mapsto> fst bestMatch))))"

definition matchBoundingBoxes ::
  "(Rect \<Rightarrow> Point2f \<Rightarrow> bool) \<Rightarrow> DMatch list \<Rightarrow> (int \<rightharpoonup> int) \<Rightarrow> DataFrame \<Rightarrow> DataFrame
    \<Rightarrow> error + (int \<rightharpoonup> int)" where
  "matchBoundingBoxes contains matches bbBestMatches prevFrame currFrame =
     prevBoxLoop contains prevFrame currFrame matches (boundingBoxes prevFrame) bbBestMatches"

section \<open>clusterLidarWithROI\<close>

text \<open>
  A \<^verbatim>\<open>cv::Mat\<close> of doubles: its sizes and its elements, row after row, in one continuous
  buffer. The product checks the sizes. The accessor \<^verbatim>\<open>at<double>(i0, i1)\<close> of a release
  build checks nothing: it reads the element at offset \<open>i0 * cols + i1\<close> of the buffer.
\<close>

record Mat =
  mat_rows :: nat
  mat_cols :: nat
  mat_data :: "real list"

definition mat_mul :: "Mat \<Rightarrow> Mat \<Rightarrow> error + Mat" where
  "mat_mul A B =
     (if mat_cols A \<noteq> mat_rows B then Inl SizeMismatch
      else Inr \<lparr>mat_rows = mat_rows A, mat_cols = mat_cols B,
                mat_data = concat (map (\<lambda>i. map (\<lambda>j.
                    sum_list (map (\<lambda>k. mat_data A ! (i * mat_cols A + k) *
                                         mat_data B ! (k * mat_cols B + j))
                                  [0..<mat_cols A]))
                  [0..<mat_cols B]) [0..<mat_rows A])\<rparr>)"

definition mat_at :: "Mat \<Rightarrow> nat \<Rightarrow> nat \<Rightarrow> error + real" where
  "mat_at M i0 i1 = vec_index (mat_data M) (int (i0 * mat_cols M + i1))"

text \<open>
  The conversion of a double to \<^verbatim>\<open>int\<close> drops the fractional part; it is undefined
  when the truncated value is not a 32-bit \<^verbatim>\<open>int\<close>, that is outside
  \<open>-2\<^sup>3\<^sup>1 \<le> i < 2\<^sup>3\<^sup>1\<close>.
\<close>

definition trunc :: "real \<Rightarrow> int" where
  "trunc a = (if 0 \<le> a then \<lfloor>a\<rfloor> else \<lceil>a\<rceil>)"

definition int_range :: "int \<Rightarrow> bool" where
  "int_range i = (- (2 ^ 31) \<le> i \<and> i < 2 ^ 31)"

definition double_to_int :: "double \<Rightarrow> error + int" where
  "double_to_int d =
     (case d of
        Fin a \<Rightarrow> if int_range (trunc a) then Inr (trunc a) else Inl UndefinedConversion
      | _ \<Rightarrow> Inl UndefinedConversion)"

text \<open>Lines 22--25: the vector \<^verbatim>\<open>X\<close> of a Lidar point.\<close>

definition homogeneous :: "LidarPoint \<Rightarrow> Mat" where
  "homogeneous p = \<lparr>mat_rows = 4, mat_cols = 1, mat_data = [lp_x p, lp_y p, lp_z p, 1]\<rparr>"

text \<open>Line 28: \<^verbatim>\<open>Y = P_rect_xx * R_rect_xx * RT * X\<close>, associated to the left.\<close>

definition projectY :: "Mat \<Rightarrow> Mat \<Rightarrow> Mat \<Rightarrow> LidarPoint \<Rightarrow> error + Mat" where
  "projectY P_rect_xx R_rect_xx RT p =
     (case mat_mul P_rect_xx R_rect_xx of Inl e \<Rightarrow> Inl e | Inr PR \<Rightarrow>
      (case mat_mul PR RT of Inl e \<Rightarrow> Inl e | Inr PRT \<Rightarrow>
        mat_mul PRT (homogeneous p)))"

text \<open>Lines 29--31: the pixel \<^verbatim>\<open>cv::Point pt\<close>, whose coordinates are \<^verbatim>\<open>int\<close>.\<close>

definition project :: "Mat \<Rightarrow> Mat \<Rightarrow> Mat \<Rightarrow> LidarPoint \<Rightarrow> error + Point" where
  "project P_rect_xx R_rect_xx RT p =
     (case projectY P_rect_xx R_rect_xx RT p of Inl e \<Rightarrow> Inl e | Inr Y \<Rightarrow>
      (case mat_at Y 0 0 of Inl e \<Rightarrow> Inl e | Inr y00 \<Rightarrow>
      (case mat_at Y 0 2 of Inl e \<Rightarrow> Inl e | Inr y02 \<Rightarrow>
      (case double_to_int (ddiv (Fin y00) (Fin y02)) of Inl e \<Rightarrow> Inl e | Inr pt_x \<Rightarrow>
      (case mat_at Y 1 0 of Inl e \<Rightarrow> Inl e | Inr y10 \<Rightarrow>
      (case double_to_int (ddiv (Fin y10) (Fin y02)) of Inl e \<Rightarrow> Inl e | Inr pt_y \<Rightarrow>
        Inr (pt_x, pt_y)))))))"

text \<open>Lines 37--41: the shrunk rectangle, a \<^verbatim>\<open>cv::Rect\<close> of \<^verbatim>\<open>int\<close> fields.\<close>

definition smallerBox :: "Rect \<Rightarrow> real \<Rightarrow> Rect" where
  "smallerBox r shrinkFactor =
     \<lparr>rect_x = trunc (real_of_int (rect_x r) + shrinkFactor * real_of_int (rect_width r) / 2),
      rect_y = trunc (real_of_int (rect_y r) + shrinkFactor * real_of_int (rect_height r) / 2),
      rect_width = trunc (real_of_int (rect_width r) * (1 - shrinkFactor)),
      rect_height = trunc (real_of_int (rect_height r) * (1 - shrinkFactor))\<rparr>"

text \<open>\<^verbatim>\<open>cv::Rect::contains\<close> for a pixel: the rectangle is half open.\<close>

definition rect_contains :: "Rect \<Rightarrow> Point \<Rightarrow> bool" where
  "rect_contains r p =
     (rect_x r \<le> fst p \<and> fst p < rect_x r + rect_width r \<and>
      rect_y r \<le> snd p \<and> snd p < rect_y r + rect_height r)"

text \<open>
  Lines 33--49: \<^verbatim>\<open>enclosingBoxes\<close>, the iterators \<^verbatim>\<open>it2\<close> as offsets into
  \<^verbatim>\<open>boundingBoxes\<close>, in the order of the loop.
\<close>

definition enclosingBoxes :: "BoundingBox list \<Rightarrow> real \<Rightarrow> Point \<Rightarrow> nat list" where
  "enclosingBoxes boxes shrinkFactor p =
     filter (\<lambda>it2. rect_contains (smallerBox (roi (boxes ! it2)) shrinkFactor) p)
       [0..<length boxes]"

text \<open>Lines 19--58, the loop over the Lidar points.\<close>

fun clusterLidarWithROI ::
  "BoundingBox list \<Rightarrow> LidarPoint list \<Rightarrow> real \<Rightarrow> Mat \<Rightarrow> Mat \<Rightarrow> Mat \<Rightarrow> error + BoundingBox list" where
  "clusterLidarWithROI boxes [] shrinkFactor P_rect_xx R_rect_xx RT = Inr boxes"
| "clusterLidarWithROI boxes (it1 # rest) shrinkFactor P_rect_xx R_rect_xx RT =
     (case project P_rect_xx R_rect_xx RT it1 of Inl e \<Rightarrow> Inl e | Inr p \<Rightarrow>
        let enclosing = enclosingBoxes boxes shrinkFactor p in
        if length enclosing = 1
        then clusterLidarWithROI
               (boxes[enclosing ! 0 :=
                  (boxes ! (enclosing ! 0))
                    \<lparr>lidarPoints := lidarPoints (boxes ! (enclosing ! 0)) @ [it1]\<rparr>])
               rest shrinkFactor P_rect_xx R_rect_xx RT
        else clusterLidarWithROI boxes rest shrinkFactor P_rect_xx R_rect_xx RT)"

section \<open>clustering and computeTTCLidar\<close>

type_synonym PointXYZ = "real \<times> real \<times> real"

text \<open>
  \<^verbatim>\<open>pcl::EuclideanClusterExtraction::extract\<close> belongs to the point-cloud library: the
  model takes it as the parameter \<open>extract\<close>, from the cloud, the tolerance and the two size
  bounds to the clusters' indices. Lines 260--266 read \<^verbatim>\<open>cloud->points[index]\<close> unchecked.
\<close>

fun gatherPoints :: "PointXYZ list \<Rightarrow> int list \<Rightarrow> PointXYZ list \<Rightarrow> error + PointXYZ list" where
  "gatherPoints cloud [] clusters = Inr clusters"
| "gatherPoints cloud (index # rest) clusters =
     (case vec_index cloud index of Inl e \<Rightarrow> Inl e | Inr p \<Rightarrow>
        gatherPoints cloud rest (clusters @ [p]))"

definition clustering ::
  "(PointXYZ list \<Rightarrow> real \<Rightarrow> int \<Rightarrow> int \<Rightarrow> int list list) \<Rightarrow> LidarPoint list \<Rightarrow> real \<Rightarrow> int \<Rightarrow> int
    \<Rightarrow> error + PointXYZ list" where
  "clustering extract points clusterTolerance minSize maxSize =
     (let cloud = map (\<lambda>p. (lp_x p, lp_y p, lp_z p)) points;
          clusterIndices = extract cloud clusterTolerance minSize maxSize
      in if clusterIndices = [] then Inr []
         else gatherPoints cloud (concat clusterIndices) [])"

definition laneWidht :: real where
  "laneWidht = 4"

definition clusterTolerance :: real where
  "clusterTolerance = 5 / 100"

text \<open>Lines 287--293 and 295--301: the closest in-lane point of a clustered cloud.\<close>

fun minXLoop :: "PointXYZ list \<Rightarrow> real \<Rightarrow> real" where
  "minXLoop [] minX = minX"
| "minXLoop (lidarPt # rest) minX =
     (if \<bar>fst (snd lidarPt)\<bar> < laneWidht / 2
      then minXLoop rest (if fst lidarPt < minX then fst lidarPt else minX)
      else minXLoop rest minX)"

definition computeTTCLidar ::
  "(PointXYZ list \<Rightarrow> real \<Rightarrow> int \<Rightarrow> int \<Rightarrow> int list list) \<Rightarrow> LidarPoint list \<Rightarrow> LidarPoint list
    \<Rightarrow> real \<Rightarrow> error + double" where
  "computeTTCLidar extract lidarPointsPrev lidarPointsCurr frameRate =
     (let dt = ddiv (Fin 1) (Fin frameRate) in
      case clustering extract lidarPointsPrev clusterTolerance 30 25000 of
        Inl e \<Rightarrow> Inl e
      | Inr clusterPrevPts \<Rightarrow>
          (case clustering extract lidarPointsCurr clusterTolerance 30 25000 of
             Inl e \<Rightarrow> Inl e
           | Inr clusterCurrPts \<Rightarrow>
               let minXPrev = minXLoop clusterPrevPts (10 ^ 9);
                   minXCurr = minXLoop clusterCurrPts (10 ^ 9)
               in Inr (ddiv (Fin minXCurr) (ddiv (Fin (minXPrev - minXCurr)) dt))))"

section \<open>The specification's wording\<close>

text \<open>
  The definitions of this section follow the words of the specification, not the source; the
  theorems below compare them with the source's functions.
\<close>

text \<open>Every unordered pair of two different positions of a list, once.\<close>

fun unordered_pairs :: "'a list \<Rightarrow> ('a \<times> 'a) list" where
  "unordered_pairs [] = []"
| "unordered_pairs (a # rest) = map (Pair a) rest @ unordered_pairs rest"

text \<open>
  The ratio \<open>distCurr / distPrev\<close> of a pair of matches, unless \<open>distPrev\<close> is below the
  epsilon or \<open>distCurr\<close> below the minimum separation.
\<close>

definition pair_ratio :: "KeyPoint list \<Rightarrow> KeyPoint list \<Rightarrow> DMatch \<times> DMatch \<Rightarrow> real list" where
  "pair_ratio kptsPrev kptsCurr p =
     (let distCurr = cv_norm (psub (pt (kptsCurr ! nat (trainIdx (fst p))))
                                   (pt (kptsCurr ! nat (trainIdx (snd p)))));
          distPrev = cv_norm (psub (pt (kptsPrev ! nat (queryIdx (fst p))))
                                   (pt (kptsPrev ! nat (queryIdx (snd p)))))
      in if dbl_epsilon < distPrev \<and> minDist \<le> distCurr then [distCurr / distPrev] else [])"

definition ratios_spec :: "KeyPoint list \<Rightarrow> KeyPoint list \<Rightarrow> DMatch list \<Rightarrow> real list" where
  "ratios_spec kptsPrev kptsCurr ms =
     concat (map (pair_ratio kptsPrev kptsCurr) (unordered_pairs ms))"

text \<open>
  The median of all ratios: for an even count the average of the two central values, for an
  odd count the single central value.
\<close>

definition median_spec :: "real list \<Rightarrow> real" where
  "median_spec ratios =
     (let s = sort ratios; n = length s in
      if even n then (s ! (n div 2 - 1) + s ! (n div 2)) / 2 else s ! (n div 2))"

text \<open>
  The output of the camera estimator: not a number when no pair survives, otherwise
  \<open>- dT / (1 - medianRatio)\<close>, or infinity when the median ratio is 1.
\<close>

definition ttc_spec :: "real list \<Rightarrow> real \<Rightarrow> double" where
  "ttc_spec ratios frameRate =
     (if ratios = [] then NaN
      else let dT = ddiv (Fin 1) (Fin frameRate); medianRatio = median_spec ratios in
        if medianRatio \<noteq> 1 then ddiv (dneg dT) (Fin (1 - medianRatio)) else PInf)"

text \<open>
  The pixel lies inside the shrunk rectangle of region \<open>k\<close> and of no other region.
\<close>

definition only_enclosing_region :: "BoundingBox list \<Rightarrow> real \<Rightarrow> Point \<Rightarrow> nat \<Rightarrow> bool" where
  "only_enclosing_region boxes shrinkFactor p k =
     (k < length boxes \<and> rect_contains (smallerBox (roi (boxes ! k)) shrinkFactor) p \<and>
      list_all (\<lambda>j. rect_contains (smallerBox (roi (boxes ! j)) shrinkFactor) p \<longrightarrow> j = k)
        [0..<length boxes])"

text \<open>A point within 2.0 units of the lane's centerline.\<close>

definition in_lane :: "PointXYZ \<Rightarrow> bool" where
  "in_lane p = (\<bar>fst (snd p)\<bar> < 2)"

section \<open>Concrete inputs\<close>

definition kp :: "real \<Rightarrow> real \<Rightarrow> KeyPoint" where
  "kp a b = \<lparr>pt = (a, b)\<rparr>"

definition dmatch :: "int \<Rightarrow> int \<Rightarrow> DMatch" where
  "dmatch q t = \<lparr>queryIdx = q, trainIdx = t\<rparr>"

definition box :: "int \<Rightarrow> int \<Rightarrow> int \<Rightarrow> int \<Rightarrow> int \<Rightarrow> BoundingBox" where
  "box n a b w h =
     \<lparr>boxID = n, roi = \<lparr>rect_x = a, rect_y = b, rect_width = w, rect_height = h\<rparr>,
      lidarPoints = [], kptMatches = []\<rparr>"

definition lp :: "real \<Rightarrow> real \<Rightarrow> real \<Rightarrow> LidarPoint" where
  "lp a b c = \<lparr>lp_x = a, lp_y = b, lp_z = c, lp_r = 0\<rparr>"

text \<open>A containment test for keypoint locations, for the concrete inputs.\<close>

definition contains_half_open :: "Rect \<Rightarrow> Point2f \<Rightarrow> bool" where
  "contains_half_open r p =
     (real_of_int (rect_x r) \<le> fst p \<and> fst p < real_of_int (rect_x r + rect_width r) \<and>
      real_of_int (rect_y r) \<le> snd p \<and> snd p < real_of_int (rect_y r + rect_height r))"

text \<open>
  Three matches on a line; the pairs (0, 1) and (0, 2) pass the thresholds with the ratios
  1 and 3, the pair (1, 2) is 50 pixels apart in the current frame.
\<close>

definition kptsPrev3 :: "KeyPoint list" where
  "kptsPrev3 = [kp 0 0, kp 100 0, kp 50 0]"

definition kptsCurr3 :: "KeyPoint list" where
  "kptsCurr3 = [kp 0 0, kp 100 0, kp 150 0]"

definition matches3 :: "DMatch list" where
  "matches3 = [dmatch 0 0, dmatch 1 1, dmatch 2 2]"

text \<open>Two matches, 100 pixels apart in both frames.\<close>

definition kpts2 :: "KeyPoint list" where
  "kpts2 = [kp 0 0, kp 100 0]"

definition matches2 :: "DMatch list" where
  "matches2 = [dmatch 0 0, dmatch 1 1]"

text \<open>Four matches on a line, every pair of them passing the thresholds.\<close>

definition kptsPrev4 :: "KeyPoint list" where
  "kptsPrev4 = [kp 0 0, kp 100 0, kp 200 0, kp 1000 0]"

definition kptsCurr4 :: "KeyPoint list" where
  "kptsCurr4 = [kp 0 0, kp 100 0, kp 400 0, kp 1000 0]"

definition matches4 :: "DMatch list" where
  "matches4 = [dmatch 0 0, dmatch 1 1, dmatch 2 2, dmatch 3 3]"

text \<open>
  Five matches inside one region, with the displacements 1, 1, 1, 1 and 100 of the
  specification's example (mean 20.8, threshold 31.2).
\<close>

definition kptsPrev5 :: "KeyPoint list" where
  "kptsPrev5 = [kp 0 0, kp 10 0, kp 20 0, kp 30 0, kp 40 0]"

definition kptsCurr5 :: "KeyPoint list" where
  "kptsCurr5 = [kp 1 0, kp 11 0, kp 21 0, kp 31 0, kp 140 0]"

definition matches5 :: "DMatch list" where
  "matches5 = [dmatch 0 0, dmatch 1 1, dmatch 2 2, dmatch 3 3, dmatch 4 4]"

definition region :: BoundingBox where
  "region = box 0 0 0 200 100"

text \<open>
  Two frames: the previous region 0 holds two keypoints matched into the current region 5 and
  one matched into the current region 7; the previous region 1 holds no keypoint.
\<close>

definition framePrev :: DataFrame where
  "framePrev = \<lparr>keypoints = [kp 10 10, kp 20 20, kp 30 30],
                  boundingBoxes = [box 0 0 0 100 100, box 1 500 500 100 100]\<rparr>"

definition frameCurr :: DataFrame where
  "frameCurr = \<lparr>keypoints = [kp 10 10, kp 20 20, kp 150 30],
                  boundingBoxes = [box 7 100 0 100 100, box 5 0 0 100 100]\<rparr>"

text \<open>A projection that keeps the first three coordinates, and the identity.\<close>

definition proj34 :: Mat where
  "proj34 = \<lparr>mat_rows = 3, mat_cols = 4,
             mat_data = [1, 0, 0, 0,  0, 1, 0, 0,  0, 0, 1, 0]\<rparr>"

definition eye4 :: Mat where
  "eye4 = \<lparr>mat_rows = 4, mat_cols = 4,
           mat_data = [1, 0, 0, 0,  0, 1, 0, 0,  0, 0, 1, 0,  0, 0, 0, 1]\<rparr>"

text \<open>An extraction that returns the whole cloud as one cluster.\<close>

definition one_cluster :: "PointXYZ list \<Rightarrow> real \<Rightarrow> int \<Rightarrow> int \<Rightarrow> int list list" where
  "one_cluster cloud tolerance minSize maxSize = [map int [0..<length cloud]]"

text \<open>
  The in-lane points of the specification's example, and in each frame one closer point
  three units off the centerline.
\<close>

definition lidarPrev :: "LidarPoint list" where
  "lidarPrev = [lp 10 0 0, lp (102 / 10) (1 / 2) 0, lp (101 / 10) (- 1) 0, lp 8 3 0]"

definition lidarCurr :: "LidarPoint list" where
  "lidarCurr = [lp 9 0 0, lp (91 / 10) (1 / 2) 0, lp (905 / 100) (- 1) 0, lp 7 (- 3) 0]"

section \<open>Evaluation rules\<close>

lemma upt_small:
  "[0..<1] = [0]" "[0..<2] = [0, 1]" "[0..<3] = [0, 1, 2]" "[0..<4] = [0, 1, 2, 3]"
  by (simp_all add: upt_rec)

lemmas pair_loop_eval =
  outerLoop.simps innerLoop.simps vec_index_def vec_at_def cv_norm_def psub_def minDist_def
  dbl_epsilon_def kp_def dmatch_def

section \<open>Properties of computeTTCCamera\<close>

text \<open>
  C10. The outer pair loop runs up to \<^verbatim>\<open>kptMatches.end() - 1\<close>: on an empty match list the
  estimator leaves its precondition (it reads through the end iterator), and on every list of
  exactly one match no pair is enumerated, no ratio is recorded and the TTC is the
  not-a-number sentinel.
\<close>

theorem computeTTCCamera_empty_and_single:
  "computeTTCCamera kptsPrev kptsCurr [] frameRate = Inl UndefinedRead \<and>
   outerLoop kptsPrev kptsCurr [m] 0 [] = Inr [] \<and>
   computeTTCCamera kptsPrev kptsCurr [m] frameRate = Inr NaN"
  by (simp add: computeTTCCamera_def outerLoop.simps [of _ _ _ 0] vec_index_def)

text \<open>
  C5. The specification asks for one ratio per unordered pair of matches. The inner loop starts at
  \<^verbatim>\<open>begin() + 1\<close> whatever \<^verbatim>\<open>it1\<close> is, so on the four matches of \<open>matches4\<close> the
  source records seven ratios where there are six unordered pairs: the pair of the matches
  1 and 2, of ratio 3, is visited as (1, 2) and again as (2, 1).
\<close>

theorem outerLoop_counts_pair_twice:
  "outerLoop kptsPrev4 kptsCurr4 matches4 0 [] = Inr [1, 2, 1, 3, 1, 3, 3 / 4] \<and>
   ratios_spec kptsPrev4 kptsCurr4 matches4 = [1, 2, 1, 3, 1, 3 / 4]"
  by (simp add: pair_loop_eval kptsPrev4_def kptsCurr4_def matches4_def ratios_spec_def
        pair_ratio_def)

text \<open>
  The value of the source is the median of the specification exactly for the counts of
  ratios that are 0 or 3 modulo 4.
\<close>

lemma medianDistRatio_agrees:
  assumes "length ds mod 4 = 0 \<or> length ds mod 4 = 3" and "ds \<noteq> []"
  shows "medianDistRatio (sort ds) = Inr (median_spec ds)"
proof -
  let ?n = "length ds"
  let ?s = "sort ds"
  have n: "0 < ?n" using assms(2) by simp
  have i: "int ?n div 2 = int (?n div 2)" by simp
  have lt: "?n div 2 < ?n" using n by simp
  from assms(1) show ?thesis
  proof
    assume m: "?n mod 4 = 0"
    then have ev: "even ?n" by presburger
    from m have ev2: "(?n div 2) mod 2 = 0" by presburger
    from m n have ge: "1 \<le> ?n div 2" by presburger
    have a: "vec_index ?s (int (?n div 2) - 1) = Inr (?s ! (?n div 2 - 1))"
      using ge lt by (simp add: vec_index_def nat_diff_distrib' of_nat_diff)
    have b: "vec_index ?s (int (?n div 2)) = Inr (?s ! (?n div 2))"
      using lt by (simp add: vec_index_def)
    have c: "int (?n div 2) mod 2 = 0" using ev2 by presburger
    show ?thesis
      unfolding medianDistRatio_def median_spec_def Let_def
      using a b c ev by (simp add: i del: of_nat_div)
  next
    assume m: "?n mod 4 = 3"
    then have od: "odd ?n" by presburger
    from m have od2: "int (?n div 2) mod 2 \<noteq> 0" by presburger
    have b: "vec_index ?s (int (?n div 2)) = Inr (?s ! (?n div 2))"
      using lt by (simp add: vec_index_def)
    show ?thesis
      unfolding medianDistRatio_def median_spec_def Let_def
      using b od od2 by (simp add: i del: of_nat_div)
  qed
qed

text \<open>
  C1. The specification asks for the median of all ratios. The source tests the parity of
  \<^verbatim>\<open>medianIdx\<close>, not of the number of ratios: on the two ratios 1 and 3 recorded for
  \<open>matches3\<close> it takes the upper one, 3, where the median is 2; on the single ratio
  recorded for \<open>matches2\<close> it reads \<^verbatim>\<open>distRatios[-1]\<close>.
\<close>

theorem medianDistRatio_parity_of_index:
  "outerLoop kptsPrev3 kptsCurr3 matches3 0 [] = Inr [1, 3] \<and>
   medianDistRatio (sort [1, 3]) = Inr 3 \<and> median_spec [1, 3] = 2 \<and>
   outerLoop kpts2 kpts2 matches2 0 [] = Inr [1] \<and>
   medianDistRatio (sort [1]) = Inl UndefinedRead \<and> median_spec [1] = 1"
  by (simp add: pair_loop_eval kptsPrev3_def kptsCurr3_def matches3_def kpts2_def matches2_def
        medianDistRatio_def median_spec_def)

text \<open>
  What the tail of the estimator does with the ratios it recorded and the value the source
  takes for their median.
\<close>

lemma computeTTCCamera_tail:
  assumes "outerLoop kptsPrev kptsCurr ms 0 [] = Inr distRatios"
  shows "distRatios = [] \<Longrightarrow> computeTTCCamera kptsPrev kptsCurr ms frameRate = Inr NaN"
    and "distRatios \<noteq> [] \<Longrightarrow> medianDistRatio (sort distRatios) = Inr 1 \<Longrightarrow>
           computeTTCCamera kptsPrev kptsCurr ms frameRate = Inr PInf"
    and "distRatios \<noteq> [] \<Longrightarrow> medianDistRatio (sort distRatios) = Inr medianRatio \<Longrightarrow>
           medianRatio \<noteq> 1 \<Longrightarrow> frameRate \<noteq> 0 \<Longrightarrow>
           computeTTCCamera kptsPrev kptsCurr ms frameRate =
             Inr (Fin (- (1 / frameRate) / (1 - medianRatio)))"
  using assms by (simp_all add: computeTTCCamera_def)

text \<open>
  C6. The specification asks for \<open>- dT / (1 - medianRatio)\<close> with the median of the recorded ratios.
  The not-a-number and the infinity sentinels are as specified, but the value of the median is
  where the source goes wrong (see C1): for \<open>matches3\<close> at 10 Hz the source returns 0.05
  where the specified formula gives 0.1, and for \<open>matches2\<close> it reads \<^verbatim>\<open>distRatios[-1]\<close>
  where the specified output is infinity.
\<close>

theorem computeTTCCamera_median_defect:
  "computeTTCCamera kptsPrev3 kptsCurr3 matches3 10 = Inr (Fin (1 / 20)) \<and>
   ttc_spec (ratios_spec kptsPrev3 kptsCurr3 matches3) 10 = Fin (1 / 10) \<and>
   computeTTCCamera kpts2 kpts2 matches2 10 = Inl UndefinedRead \<and>
   ttc_spec (ratios_spec kpts2 kpts2 matches2) 10 = PInf"
  by (simp add: pair_loop_eval kptsPrev3_def kptsCurr3_def matches3_def kpts2_def matches2_def
        medianDistRatio_def median_spec_def computeTTCCamera_def ttc_spec_def ratios_spec_def
        pair_ratio_def)

section \<open>Properties of clusterKptMatchesWithROI\<close>

text \<open>
  The removal loop tests \<^verbatim>\<open>it <= end()\<close>: it cannot stop before its body has run with
  \<^verbatim>\<open>it = end()\<close>, and there the body reads past the last element. So no run of the loop,
  and no run of the filter, ends normally.
\<close>

lemma eraseLoop_reads_past_end:
  "i \<le> length v \<Longrightarrow> \<exists>e. eraseLoop kptsPrev kptsCurr threshold i v = Inl e"
proof (induction kptsPrev kptsCurr threshold i v rule: eraseLoop.induct)
  case (1 kptsPrev kptsCurr threshold i v)
  show ?case
  proof (cases "i = length v")
    case True
    then show ?thesis by (subst eraseLoop.simps) (simp add: vec_index_def)
  next
    case False
    with "1.prems" have lt: "i < length v" by simp
    then have rd: "vec_index v (int i) = Inr (v ! i)" by (simp add: vec_index_def)
    have le1: "i \<le> length (vec_erase v i)" using lt by (simp add: vec_erase_def)
    have le2: "Suc i \<le> length v" using lt by simp
    show ?thesis
      using "1.IH"(1) [OF "1.prems" rd _ _ _ le1] "1.IH"(2) [OF "1.prems" rd _ _ _ le2]
        "1.prems" rd
      by (subst eraseLoop.simps) (auto split: sum.splits)
  qed
qed

lemma clusterKptMatchesWithROI_never_returns:
  "\<exists>e. clusterKptMatchesWithROI contains boundingBox kptsPrev kptsCurr ms = Inl e"
proof -
  have "\<And>t w. \<exists>e. eraseLoop kptsPrev kptsCurr t 0 w = Inl e"
    by (rule eraseLoop_reads_past_end) simp
  then show ?thesis
    unfolding clusterKptMatchesWithROI_def
    by (auto split: sum.splits) (metis sum.distinct(1))
qed

lemma assignMatches_region5:
  "assignMatches contains_half_open region kptsCurr5 matches5 =
     Inr (region\<lparr>kptMatches := matches5\<rparr>)"
  by (simp add: region_def box_def kptsCurr5_def matches5_def kp_def dmatch_def
        contains_half_open_def vec_index_def)

lemma filterThreshold_region5:
  "filterThreshold contains_half_open region kptsPrev5 kptsCurr5 matches5 = Inr (Fin (156 / 5))"
  by (simp add: filterThreshold_def region_def box_def kptsPrev5_def kptsCurr5_def matches5_def
        kp_def dmatch_def contains_half_open_def vec_index_def vec_at_def cv_norm_def psub_def
        ratio_def)

text \<open>
  C3. The specification asks for a removal pass that never reads past the end of the collection and
  leaves the matches below 1.5 times the mean. On the specification's own example (the
  displacements 1, 1, 1, 1, 100, threshold 31.2) the loop of the source keeps the first four
  matches, erases the fifth, and then runs its body once more with \<^verbatim>\<open>it = end()\<close>: it
  reads through the end iterator instead of returning the four matches.
\<close>

theorem clusterKptMatchesWithROI_reads_past_end:
  "clusterKptMatchesWithROI contains_half_open region kptsPrev5 kptsCurr5 matches5 =
     Inl UndefinedRead"
  by (simp add: clusterKptMatchesWithROI_def assignMatches_region5 filterThreshold_region5)
     (simp add: eraseLoop.simps kptsPrev5_def kptsCurr5_def matches5_def kp_def dmatch_def
        vec_index_def vec_at_def cv_norm_def psub_def vec_erase_def)

text \<open>With at least one assigned match the threshold is finite: 1.5 times the mean.\<close>

lemma filterThreshold_nonempty:
  "assignMatches contains boundingBox kptsCurr ms = Inr bb \<Longrightarrow> kptMatches bb \<noteq> [] \<Longrightarrow>
   sumDistances kptsPrev kptsCurr (kptMatches bb) 0 = Inr acc \<Longrightarrow>
   filterThreshold contains boundingBox kptsPrev kptsCurr ms =
     Inr (Fin (acc / real (length (kptMatches bb)) * ratio))"
  by (simp add: filterThreshold_def)

text \<open>
  C4, the specification's statement fails: for a region and an empty match list, so that zero matches
  are assigned, the source does compute \<^verbatim>\<open>sum / size\<close> = 0/0, and the threshold of the
  outlier pass is not a number.
\<close>

theorem filterThreshold_no_short_circuit:
  "assignMatches contains_half_open region [] [] = Inr region \<and> kptMatches region = [] \<and>
   filterThreshold contains_half_open region [] [] [] = Inr NaN"
  by (simp add: filterThreshold_def region_def box_def)

text \<open>
  C4, amended. For every region to which the membership step assigns zero matches, the
  filter has no short circuit: it computes the mean as 0/0, and the threshold
  \<^verbatim>\<open>mean * ratio\<close> of the outlier pass is the not-a-number value.
\<close>

theorem filterThreshold_zero_matches:
  "assignMatches contains boundingBox kptsCurr ms = Inr bb \<Longrightarrow> kptMatches bb = [] \<Longrightarrow>
   filterThreshold contains boundingBox kptsPrev kptsCurr ms = Inr NaN"
  by (simp add: filterThreshold_def)

text \<open>A match whose current keypoint lies outside the region: nothing is assigned.\<close>

theorem filterThreshold_zero_matches_witness:
  "filterThreshold contains_half_open region [kp 0 0] [kp 300 300] [dmatch 0 0] = Inr NaN"
proof -
  have a: "assignMatches contains_half_open region [kp 300 300] [dmatch 0 0] = Inr region"
    by (simp add: region_def box_def kp_def dmatch_def contains_half_open_def vec_index_def)
  have b: "kptMatches region = []"
    by (simp add: region_def box_def)
  from filterThreshold_zero_matches [OF a b] show ?thesis .
qed

section \<open>Properties of matchBoundingBoxes\<close>

text \<open>
  The specification's example: two matches vote for the current region 5 and one for the
  current region 7, and the previous region 0 is mapped to 5.
\<close>

lemma matchBoundingBoxes_votes:
  "\<exists>bb. matchBoundingBoxes contains_half_open matches3 Map.empty
           (framePrev\<lparr>boundingBoxes := [box 0 0 0 100 100]\<rparr>) frameCurr = Inr bb \<and>
        bb 0 = Some 5 \<and> dom bb = {0}"
  by (simp add: matchBoundingBoxes_def framePrev_def frameCurr_def box_def matches3_def kp_def
        dmatch_def contains_half_open_def vec_index_def count_vote_def max_element_def)

text \<open>
  A run that ends normally has assigned an entry for every previous region, and no run ends
  normally when the vote table of some previous region stays empty.
\<close>

lemma prevBoxLoop_dom:
  "prevBoxLoop contains prevFrame currFrame matches boxes bbBestMatches = Inr bb \<Longrightarrow>
   dom bb = dom bbBestMatches \<union> boxID ` set boxes"
proof (induction boxes arbitrary: bbBestMatches)
  case Nil
  then show ?case by simp
next
  case (Cons prevBox rest)
  then show ?case by (auto split: sum.splits option.splits)
qed

lemma prevBoxLoop_empty_table:
  "prevBox \<in> set boxes \<Longrightarrow>
   currBoxLoop contains prevFrame currFrame matches prevBox (boundingBoxes currFrame) [] =
     Inr [] \<Longrightarrow>
   \<exists>e. prevBoxLoop contains prevFrame currFrame matches boxes bbBestMatches = Inl e"
proof (induction boxes arbitrary: bbBestMatches)
  case Nil
  then show ?case by simp
next
  case (Cons b rest)
  then show ?case by (auto simp: max_element_def split: sum.splits option.splits)
qed

text \<open>
  C2. The specification asks for no map entry for a previous region without votes. For the previous
  region 1 of \<open>framePrev\<close>, which holds no keypoint, the vote table is empty,
  \<^verbatim>\<open>std::max_element\<close> returns \<^verbatim>\<open>end()\<close>, and line 350 reads \<^verbatim>\<open>bestMatch->first\<close>
  through it to assign \<^verbatim>\<open>bbBestMatches[1]\<close>: the source does not skip the region.
\<close>

theorem matchBoundingBoxes_zero_votes:
  "matchBoundingBoxes contains_half_open matches3 Map.empty framePrev frameCurr =
     Inl UndefinedRead"
  by (simp add: matchBoundingBoxes_def framePrev_def frameCurr_def box_def matches3_def kp_def
        dmatch_def contains_half_open_def vec_index_def count_vote_def max_element_def)

section \<open>Properties of clusterLidarWithROI\<close>

subsection \<open>The projection\<close>

lemma length_rows: "length (concat (map (\<lambda>i. map (g i) [0..<c]) [0..<r])) = r * c"
  by (induction r) simp_all

lemma mat_mul_shape:
  "mat_cols A = mat_rows B \<Longrightarrow>
   \<exists>C. mat_mul A B = Inr C \<and> mat_rows C = mat_rows A \<and> mat_cols C = mat_cols B \<and>
        length (mat_data C) = mat_rows A * mat_cols B"
  by (simp add: mat_mul_def length_rows)

lemma projectY_shape:
  assumes "mat_rows P = 3" and "mat_cols P = mat_rows R" and "mat_cols R = mat_rows RT"
    and "mat_cols RT = 4"
  shows "\<exists>Y. projectY P R RT p = Inr Y \<and> mat_rows Y = 3 \<and> mat_cols Y = 1 \<and>
              length (mat_data Y) = 3"
proof -
  from mat_mul_shape [OF assms(2)] obtain PR where
    a: "mat_mul P R = Inr PR" "mat_rows PR = mat_rows P" "mat_cols PR = mat_cols R" by blast
  from mat_mul_shape [of PR RT] a(3) assms(3) obtain PRT where
    b: "mat_mul PR RT = Inr PRT" "mat_rows PRT = mat_rows PR" "mat_cols PRT = mat_cols RT"
    by auto
  have "mat_cols PRT = mat_rows (homogeneous p)"
    using b(3) assms(4) by (simp add: homogeneous_def)
  from mat_mul_shape [OF this] obtain Y where
    c: "mat_mul PRT (homogeneous p) = Inr Y" "mat_rows Y = mat_rows PRT"
       "mat_cols Y = mat_cols (homogeneous p)"
       "length (mat_data Y) = mat_rows PRT * mat_cols (homogeneous p)" by blast
  show ?thesis using a b c assms(1) by (simp add: projectY_def homogeneous_def)
qed

lemma list_of_length_3: "length xs = 3 \<Longrightarrow> \<exists>a b c. xs = [a, b, c]"
  by (cases xs; simp) (metis length_0_conv length_Suc_conv numeral_2_eq_2)

text \<open>
  On a product \<open>Y\<close> of one column, \<^verbatim>\<open>Y.at<double>(0, 2)\<close> is the third element: the
  denominator of both coordinates is the homogeneous depth.
\<close>

lemma project_of_Y:
  assumes "projectY P R RT p = Inr Y" and "mat_cols Y = 1" and "mat_data Y = [y0, y1, y2]"
  shows "project P R RT p =
           (if y2 \<noteq> 0 \<and> int_range (trunc (y0 / y2)) \<and> int_range (trunc (y1 / y2))
            then Inr (trunc (y0 / y2), trunc (y1 / y2))
            else Inl UndefinedConversion)"
  using assms by (simp add: project_def mat_at_def vec_index_def double_to_int_def)

lemma projectY_proj34:
  "projectY proj34 eye4 eye4 (lp a b c) = Inr \<lparr>mat_rows = 3, mat_cols = 1, mat_data = [a, b, c]\<rparr>"
  by (simp add: projectY_def mat_mul_def eye4_def proj34_def lp_def homogeneous_def upt_small)

lemma project_proj34:
  "project proj34 eye4 eye4 (lp a b c) =
     (if c \<noteq> 0 \<and> int_range (trunc (a / c)) \<and> int_range (trunc (b / c))
      then Inr (trunc (a / c), trunc (b / c))
      else Inl UndefinedConversion)"
  using project_of_Y [OF projectY_proj34, of a b c] by simp

text \<open>
  A depth of zero, or a quotient beyond the \<^verbatim>\<open>int\<close> range, leaves the projection
  without a pixel.
\<close>

lemma project_undefined_conversion:
  "project proj34 eye4 eye4 (lp 1 1 0) = Inl UndefinedConversion"
  "project proj34 eye4 eye4 (lp 10000000000 0 1) = Inl UndefinedConversion"
  "project proj34 eye4 eye4 (lp 2147483648 0 1) = Inl UndefinedConversion"
  "project proj34 eye4 eye4 (lp 2147483647 (- 2147483648) 1) = Inr (2147483647, - 2147483648)"
  by (simp_all add: project_proj34 trunc_def int_range_def)

text \<open>
  C9, the specification's statement fails: the pixel is a \<^verbatim>\<open>cv::Point\<close> of \<^verbatim>\<open>int\<close> coordinates.
  For the homogeneous product (3, 5, 2) the quotients are 1.5 and 2.5 and the pixel is (1, 2).
\<close>

theorem project_not_the_quotients:
  "projectY proj34 eye4 eye4 (lp 3 5 2) =
     Inr \<lparr>mat_rows = 3, mat_cols = 1, mat_data = [3, 5, 2]\<rparr> \<and>
   project proj34 eye4 eye4 (lp 3 5 2) = Inr (1, 2) \<and>
   real_of_int 1 \<noteq> 3 / 2 \<and> real_of_int 2 \<noteq> 5 / 2"
  by (simp add: projectY_proj34 project_proj34 trunc_def int_range_def)

text \<open>
  C9, amended. For a 3-row projection and matrices of matching sizes, the homogeneous
  product has the three components \<open>y0\<close>, \<open>y1\<close>, \<open>y2\<close>, and when the depth \<open>y2\<close> is not zero the
  pixel of a range point is \<open>y0 / y2\<close> and \<open>y1 / y2\<close>, both divided by the third component
  (index 2), each with its fractional part dropped, provided both truncated quotients are
  32-bit \<^verbatim>\<open>int\<close> values.
\<close>

theorem project_truncated_quotients:
  assumes "mat_rows P = 3" and "mat_cols P = mat_rows R" and "mat_cols R = mat_rows RT"
    and "mat_cols RT = 4"
  shows "\<exists>y0 y1 y2.
           projectY P R RT p = Inr \<lparr>mat_rows = 3, mat_cols = 1, mat_data = [y0, y1, y2]\<rparr> \<and>
           (y2 \<noteq> 0 \<and> int_range (trunc (y0 / y2)) \<and> int_range (trunc (y1 / y2)) \<longrightarrow>
              project P R RT p = Inr (trunc (y0 / y2), trunc (y1 / y2)))"
proof -
  from projectY_shape [OF assms, of p] obtain Y where
    y: "projectY P R RT p = Inr Y" and r: "mat_rows Y = 3" and c: "mat_cols Y = 1" and
    l: "length (mat_data Y) = 3" by blast
  from list_of_length_3 [OF l] obtain y0 y1 y2 where d: "mat_data Y = [y0, y1, y2]" by blast
  have "Y = \<lparr>mat_rows = 3, mat_cols = 1, mat_data = [y0, y1, y2]\<rparr>"
    using r c d by (cases Y) simp
  with y project_of_Y [OF y c d] show ?thesis by auto
qed

theorem project_truncated_quotients_witness:
  "projectY proj34 eye4 eye4 (lp 7 (- 9) 2) =
     Inr \<lparr>mat_rows = 3, mat_cols = 1, mat_data = [7, - 9, 2]\<rparr> \<and>
   project proj34 eye4 eye4 (lp 7 (- 9) 2) = Inr (3, - 4)"
proof -
  have s: "mat_rows proj34 = 3" "mat_cols proj34 = mat_rows eye4"
    "mat_cols eye4 = mat_rows eye4" "mat_cols eye4 = 4"
    by (simp_all add: proj34_def eye4_def)
  from project_truncated_quotients [OF s, of "lp 7 (- 9) 2"] obtain y0 y1 y2 where
    y: "projectY proj34 eye4 eye4 (lp 7 (- 9) 2) =
          Inr \<lparr>mat_rows = 3, mat_cols = 1, mat_data = [y0, y1, y2]\<rparr>" and
    q: "y2 \<noteq> 0 \<and> int_range (trunc (y0 / y2)) \<and> int_range (trunc (y1 / y2)) \<longrightarrow>
          project proj34 eye4 eye4 (lp 7 (- 9) 2) = Inr (trunc (y0 / y2), trunc (y1 / y2))"
    by blast
  from y have v: "y0 = 7" "y1 = - 9" "y2 = 2" by (simp_all add: projectY_proj34)
  from q v have "project proj34 eye4 eye4 (lp 7 (- 9) 2) = Inr (3, - 4)"
    by (simp add: trunc_def int_range_def)
  with y v show ?thesis by simp
qed

subsection \<open>The association\<close>

lemma distinct_set_single: "distinct xs \<Longrightarrow> set xs = {k} \<Longrightarrow> xs = [k]"
proof (cases xs)
  case Nil
  assume "set xs = {k}"
  with Nil show ?thesis by simp
next
  case (Cons a ys)
  assume d: "distinct xs" and s: "set xs = {k}"
  from s Cons have a: "a = k" by auto
  from s Cons have "set ys \<subseteq> {k}" by auto
  moreover from d Cons a have "k \<notin> set ys" by simp
  ultimately have "ys = []" by (cases ys) auto
  with Cons a show ?thesis by simp
qed

lemma filter_upt_single:
  "(filter Q [0..<n] = [k]) = (k < n \<and> Q k \<and> (\<forall>j<n. Q j \<longrightarrow> j = k))"
proof
  assume "filter Q [0..<n] = [k]"
  then have "set (filter Q [0..<n]) = {k}" by simp
  then show "k < n \<and> Q k \<and> (\<forall>j<n. Q j \<longrightarrow> j = k)" by auto
next
  assume "k < n \<and> Q k \<and> (\<forall>j<n. Q j \<longrightarrow> j = k)"
  then have s: "set (filter Q [0..<n]) = {k}" by auto
  have d: "distinct (filter Q [0..<n])" by simp
  from d s show "filter Q [0..<n] = [k]" by (rule distinct_set_single)
qed

text \<open>The test \<^verbatim>\<open>enclosingBoxes.size() == 1\<close> singles out the only enclosing region.\<close>

lemma only_enclosing_iff:
  "only_enclosing_region boxes sf p k = (enclosingBoxes boxes sf p = [k])"
  by (auto simp add: only_enclosing_region_def enclosingBoxes_def filter_upt_single list_all_iff)

lemma enclosingBoxes_bound: "k \<in> set (enclosingBoxes boxes sf p) \<Longrightarrow> k < length boxes"
  by (simp add: enclosingBoxes_def)

text \<open>Appending a point to a region leaves every rectangle as it is.\<close>

lemma enclosingBoxes_rois:
  assumes "map roi boxes' = map roi boxes"
  shows "enclosingBoxes boxes' sf p = enclosingBoxes boxes sf p"
proof -
  from assms have l: "length boxes' = length boxes" by (metis length_map)
  have "\<And>j. j < length boxes \<Longrightarrow> roi (boxes' ! j) = roi (boxes ! j)"
    using assms l by (metis nth_map)
  then show ?thesis unfolding enclosingBoxes_def l
    by (intro filter_cong) auto
qed

lemma map_roi_update:
  "k < length boxes \<Longrightarrow> map roi (boxes[k := (boxes ! k)\<lparr>lidarPoints := l\<rparr>]) = map roi boxes"
  by (simp add: map_update list_update_same_conv)

lemma clusterLidarWithROI_run:
  assumes "\<forall>q \<in> set pts. project P R RT q = Inr (pixel q)"
  shows "\<exists>boxes'. clusterLidarWithROI boxes pts sf P R RT = Inr boxes' \<and>
           map roi boxes' = map roi boxes \<and>
           (\<forall>k<length boxes. lidarPoints (boxes' ! k) =
              lidarPoints (boxes ! k) @
                filter (\<lambda>q. enclosingBoxes boxes sf (pixel q) = [k]) pts)"
  using assms
proof (induction pts arbitrary: boxes)
  case Nil
  then show ?case by simp
next
  case (Cons q rest)
  have pq: "project P R RT q = Inr (pixel q)" using Cons.prems by simp
  have rest: "\<forall>q \<in> set rest. project P R RT q = Inr (pixel q)" using Cons.prems by simp
  let ?enc = "enclosingBoxes boxes sf (pixel q)"
  show ?case
  proof (cases "length ?enc = 1")
    case True
    then obtain k0 where k0: "?enc = [k0]" by (cases ?enc) auto
    then have k0b: "k0 < length boxes"
      using enclosingBoxes_bound [of k0 boxes sf "pixel q"] by simp
    let ?b1 = "boxes[k0 := (boxes ! k0)\<lparr>lidarPoints := lidarPoints (boxes ! k0) @ [q]\<rparr>]"
    have r1: "map roi ?b1 = map roi boxes" using k0b by (rule map_roi_update)
    from Cons.IH [OF rest, of ?b1] obtain boxes' where
      run: "clusterLidarWithROI ?b1 rest sf P R RT = Inr boxes'" and
      rois: "map roi boxes' = map roi ?b1" and
      app: "\<forall>k<length ?b1. lidarPoints (boxes' ! k) =
              lidarPoints (?b1 ! k) @ filter (\<lambda>q. enclosingBoxes ?b1 sf (pixel q) = [k]) rest"
      by blast
    have step: "clusterLidarWithROI boxes (q # rest) sf P R RT = Inr boxes'"
      using pq k0 run by simp
    have "\<forall>k<length boxes. lidarPoints (boxes' ! k) =
            lidarPoints (boxes ! k) @
              filter (\<lambda>q. enclosingBoxes boxes sf (pixel q) = [k]) (q # rest)"
    proof (intro allI impI)
      fix k assume kb: "k < length boxes"
      have e: "\<And>x. enclosingBoxes ?b1 sf x = enclosingBoxes boxes sf x"
        using r1 by (rule enclosingBoxes_rois)
      from app kb have
        a: "lidarPoints (boxes' ! k) =
              lidarPoints (?b1 ! k) @ filter (\<lambda>q. enclosingBoxes boxes sf (pixel q) = [k]) rest"
        by (simp add: e)
      show "lidarPoints (boxes' ! k) =
              lidarPoints (boxes ! k) @
                filter (\<lambda>q. enclosingBoxes boxes sf (pixel q) = [k]) (q # rest)"
      proof (cases "k = k0")
        case True
        then show ?thesis using a k0 k0b by simp
      next
        case False
        then show ?thesis using a k0 kb by simp
      qed
    qed
    with step rois r1 show ?thesis by simp
  next
    case False
    from Cons.IH [OF rest, of boxes] obtain boxes' where
      run: "clusterLidarWithROI boxes rest sf P R RT = Inr boxes'" and
      rois: "map roi boxes' = map roi boxes" and
      app: "\<forall>k<length boxes. lidarPoints (boxes' ! k) =
              lidarPoints (boxes ! k) @ filter (\<lambda>q. enclosingBoxes boxes sf (pixel q) = [k]) rest"
      by blast
    have step: "clusterLidarWithROI boxes (q # rest) sf P R RT = Inr boxes'"
      using pq False run by simp
    have no: "\<And>k. enclosingBoxes boxes sf (pixel q) \<noteq> [k]" using False by auto
    show ?thesis using step rois app no by simp
  qed
qed

text \<open>
  C7. When every range point of the frame projects to a pixel, the associator returns, and
  the points it has appended to a region \<open>k\<close> are, in their order, exactly the points whose
  pixel lies inside the shrunk rectangle of \<open>k\<close> and of no other region: a point enclosed by
  no region, or by two or more, is appended to none.
\<close>

theorem clusterLidarWithROI_unique_region:
  assumes "\<forall>q \<in> set pts. project P R RT q = Inr (pixel q)"
  shows "\<exists>boxes'. clusterLidarWithROI boxes pts sf P R RT = Inr boxes' \<and>
           length boxes' = length boxes \<and>
           (\<forall>k<length boxes. lidarPoints (boxes' ! k) =
              lidarPoints (boxes ! k) @
                filter (\<lambda>q. only_enclosing_region boxes sf (pixel q) k) pts)"
proof -
  from clusterLidarWithROI_run [OF assms, of boxes sf] obtain boxes' where
    run: "clusterLidarWithROI boxes pts sf P R RT = Inr boxes'" and
    rois: "map roi boxes' = map roi boxes" and
    app: "\<forall>k<length boxes. lidarPoints (boxes' ! k) =
            lidarPoints (boxes ! k) @ filter (\<lambda>q. enclosingBoxes boxes sf (pixel q) = [k]) pts"
    by blast
  from rois have "length boxes' = length boxes" by (metis length_map)
  with run app show ?thesis by (simp add: only_enclosing_iff)
qed

text \<open>
  Two overlapping regions, shrunk by 0.1 to the squares from 5 to 95 and from 55 to 145, and
  four points: inside the first only, inside both, inside none, inside the second only.
\<close>

theorem clusterLidarWithROI_unique_region_witness:
  "\<exists>boxes'. clusterLidarWithROI [box 0 0 0 100 100, box 1 50 50 100 100]
       [lp 10 10 1, lp 60 60 1, lp 200 200 1, lp 120 120 1] (1 / 10) proj34 eye4 eye4 =
         Inr boxes' \<and>
     length boxes' = 2 \<and>
     lidarPoints (boxes' ! 0) = [lp 10 10 1] \<and> lidarPoints (boxes' ! 1) = [lp 120 120 1]"
proof -
  let ?pix = "\<lambda>q. (trunc (lp_x q / lp_z q), trunc (lp_y q / lp_z q))"
  let ?boxes = "[box 0 0 0 100 100, box 1 50 50 100 100]"
  let ?pts = "[lp 10 10 1, lp 60 60 1, lp 200 200 1, lp 120 120 1]"
  have h: "\<forall>q \<in> set ?pts. project proj34 eye4 eye4 q = Inr (?pix q)"
    by (simp add: project_proj34 trunc_def int_range_def) (simp add: lp_def trunc_def)
  from clusterLidarWithROI_unique_region [OF h, of ?boxes "1 / 10"]
  obtain b where
    run: "clusterLidarWithROI ?boxes ?pts (1 / 10) proj34 eye4 eye4 = Inr b" and
    len: "length b = length ?boxes" and
    app: "\<forall>k<length ?boxes. lidarPoints (b ! k) =
            lidarPoints (?boxes ! k) @
              filter (\<lambda>q. only_enclosing_region ?boxes (1 / 10) (?pix q) k) ?pts"
    by blast
  have len2: "length b = 2" using len by simp
  have a0: "lidarPoints (b ! 0) = [lp 10 10 1]"
    using app [rule_format, of 0]
    by (simp add: only_enclosing_region_def upt_small box_def lp_def rect_contains_def
          smallerBox_def trunc_def)
  have a1: "lidarPoints (b ! 1) = [lp 120 120 1]"
    using app [rule_format, of 1]
    by (simp add: only_enclosing_region_def upt_small box_def lp_def rect_contains_def
          smallerBox_def trunc_def)
  from run len2 a0 a1 show ?thesis by blast
qed

section \<open>Properties of computeTTCLidar\<close>

lemma Min_insert_min:
  "finite A \<Longrightarrow> Min (insert (min m a) A) = Min (insert m (insert a A))"
  by (cases "A = {}") (simp_all add: min.assoc)

text \<open>The loop keeps the least of its start value and the in-lane forward distances.\<close>

lemma minXLoop_min:
  "minXLoop cloud m = Min (insert m (set (map fst (filter in_lane cloud))))"
proof (induction cloud arbitrary: m)
  case Nil
  then show ?case by simp
next
  case (Cons a rest)
  let ?S = "set (map fst (filter in_lane rest))"
  show ?case
  proof (cases "in_lane a")
    case True
    have k: "(if fst a < m then fst a else m) = min m (fst a)" by (simp add: min_def)
    have "minXLoop (a # rest) m = Min (insert (min m (fst a)) ?S)"
      using True Cons [of "min m (fst a)"] k by (simp add: in_lane_def laneWidht_def)
    also have "\<dots> = Min (insert m (insert (fst a) ?S))"
      by (rule Min_insert_min) simp
    finally show ?thesis using True by simp
  next
    case False
    with Cons show ?thesis by (simp add: in_lane_def laneWidht_def)
  qed
qed

lemma minXLoop_closest:
  assumes "xs = map fst (filter in_lane cloud)" and "xs \<noteq> []" and "Min (set xs) \<le> m"
  shows "minXLoop cloud m = Min (set xs)"
proof -
  have "Min (insert m (set xs)) = min m (Min (set xs))"
    using assms(2) by (simp add: Min_insert)
  with assms show ?thesis by (simp add: minXLoop_min min_def)
qed

lemma clustering_lidarPrev:
  "clustering one_cluster lidarPrev clusterTolerance 30 25000 =
     Inr [(10, 0, 0), (102 / 10, 1 / 2, 0), (101 / 10, - 1, 0), (8, 3, 0)]"
  by (simp add: clustering_def one_cluster_def lidarPrev_def lp_def upt_small vec_index_def)

lemma clustering_lidarCurr:
  "clustering one_cluster lidarCurr clusterTolerance 30 25000 =
     Inr [(9, 0, 0), (91 / 10, 1 / 2, 0), (905 / 100, - 1, 0), (7, - 3, 0)]"
  by (simp add: clustering_def one_cluster_def lidarCurr_def lp_def upt_small vec_index_def)

text \<open>
  C8. With the clustered surviving points of each frame restricted to those within 2.0 units
  of the centerline, \<open>minXPrev\<close> and \<open>minXCurr\<close> the least forward distances among them (each
  frame has such a point, none beyond the start value \<open>10\<^sup>9\<close> of the search), the estimator
  returns \<open>minXCurr / ((minXPrev - minXCurr) / dT)\<close> with \<open>dT = 1 / frameRate\<close>.
\<close>

theorem computeTTCLidar_closest_in_lane:
  assumes "clustering extract lidarPointsPrev clusterTolerance 30 25000 = Inr clusterPrevPts"
    and "clustering extract lidarPointsCurr clusterTolerance 30 25000 = Inr clusterCurrPts"
    and "xsPrev = map fst (filter in_lane clusterPrevPts)"
    and "xsCurr = map fst (filter in_lane clusterCurrPts)"
    and "xsPrev \<noteq> []" and "xsCurr \<noteq> []"
    and "Min (set xsPrev) \<le> 10 ^ 9" and "Min (set xsCurr) \<le> 10 ^ 9"
    and "minXPrev = Min (set xsPrev)" and "minXCurr = Min (set xsCurr)"
  shows "computeTTCLidar extract lidarPointsPrev lidarPointsCurr frameRate =
           Inr (ddiv (Fin minXCurr)
                  (ddiv (Fin (minXPrev - minXCurr)) (ddiv (Fin 1) (Fin frameRate)))) \<and>
         (frameRate \<noteq> 0 \<and> minXPrev \<noteq> minXCurr \<longrightarrow>
            computeTTCLidar extract lidarPointsPrev lidarPointsCurr frameRate =
              Inr (Fin (minXCurr / ((minXPrev - minXCurr) / (1 / frameRate)))))"
proof -
  have p: "minXLoop clusterPrevPts (10 ^ 9) = minXPrev"
    using assms(3,5,7,9) minXLoop_closest [of xsPrev clusterPrevPts "10 ^ 9"] by simp
  have c: "minXLoop clusterCurrPts (10 ^ 9) = minXCurr"
    using assms(4,6,8,10) minXLoop_closest [of xsCurr clusterCurrPts "10 ^ 9"] by simp
  show ?thesis
    using assms(1,2) p c by (simp add: computeTTCLidar_def)
qed

text \<open>
  The specification's example: in-lane points at 10.0, 10.2, 10.1 in the previous frame and
  at 9.0, 9.1, 9.05 in the current one, at 10 Hz, give 0.9 seconds.
\<close>

theorem computeTTCLidar_closest_in_lane_witness:
  "computeTTCLidar one_cluster lidarPrev lidarCurr 10 = Inr (Fin (9 / 10))"
  using computeTTCLidar_closest_in_lane
    [OF clustering_lidarPrev clustering_lidarCurr refl refl, of 10 9 10]
  by (simp add: in_lane_def)

end
